theory Spec2Isabelle
  imports Complex_Main "HOL-Library.List_Lexorder"
begin

section \<open>JavaScript strings and the built-ins the task pane uses\<close>

text \<open>
  A JavaScript string is a sequence of UTF-16 code units, here a list of naturals.
  \<open>lit\<close> turns an ASCII literal into its code units. Case mapping is modelled on the
  ASCII letters only (other code units are left as they are); white space is the full
  set that \<open>trim\<close>, \<open>\s\<close> and \<open>parseInt\<close> skip.
\<close>

type_synonym jstr = "nat list"

definition lit :: "string \<Rightarrow> jstr" where
  "lit s = map of_char s"

definition isDigit :: "nat \<Rightarrow> bool" where
  "isDigit u = (48 \<le> u \<and> u \<le> 57)"

definition isUpper :: "nat \<Rightarrow> bool" where
  "isUpper u = (65 \<le> u \<and> u \<le> 90)"

definition isLower :: "nat \<Rightarrow> bool" where
  "isLower u = (97 \<le> u \<and> u \<le> 122)"

definition isAlnum :: "nat \<Rightarrow> bool" where
  "isAlnum u = (isLower u \<or> isUpper u \<or> isDigit u)"

definition isWordChar :: "nat \<Rightarrow> bool" where
  "isWordChar u = (isAlnum u \<or> u = 95)"

definition isSpace :: "nat \<Rightarrow> bool" where
  "isSpace u = (u \<in> {9, 10, 11, 12, 13, 32, 160, 5760, 8232, 8233, 8239, 8287, 12288, 65279}
     \<or> (8192 \<le> u \<and> u \<le> 8202))"

definition toLowerCase :: "jstr \<Rightarrow> jstr" where
  "toLowerCase s = map (\<lambda>u. if isUpper u then u + 32 else u) s"

definition toUpperCase :: "jstr \<Rightarrow> jstr" where
  "toUpperCase s = map (\<lambda>u. if isLower u then u - 32 else u) s"

definition trim :: "jstr \<Rightarrow> jstr" where
  "trim s = rev (dropWhile isSpace (rev (dropWhile isSpace s)))"

fun startsWith :: "jstr \<Rightarrow> jstr \<Rightarrow> bool" where
  "startsWith s [] = True"
| "startsWith [] (c # cs) = False"
| "startsWith (d # ds) (c # cs) = (d = c \<and> startsWith ds cs)"

text \<open>\<open>hay.includes(needle)\<close>: the needle starts at some position of the hay.\<close>

fun jsIncludes :: "jstr \<Rightarrow> jstr \<Rightarrow> bool" where
  "jsIncludes [] needle = (needle = [])"
| "jsIncludes (c # cs) needle = (startsWith (c # cs) needle \<or> jsIncludes cs needle)"

text \<open>\<open>String.fromCharCode(n)\<close>: one code unit, \<open>n\<close> reduced to 16 bits.\<close>

definition fromCharCode :: "nat \<Rightarrow> jstr" where
  "fromCharCode n = [n mod 65536]"

text \<open>The decimal digits of a number, as a template literal prints an integer.\<close>

fun digitsOf :: "nat \<Rightarrow> jstr" where
  "digitsOf n = (if n < 10 then [48 + n] else digitsOf (n div 10) @ [48 + n mod 10])"

declare digitsOf.simps [simp del]

definition showInt :: "int \<Rightarrow> jstr" where
  "showInt i = (if i < 0 then 45 # digitsOf (nat (- i)) else digitsOf (nat i))"

text \<open>\<open>m.split("_").pop()\<close>: what follows the last underscore (the whole string if none).\<close>

definition lastSegment :: "jstr \<Rightarrow> jstr" where
  "lastSegment s = rev (takeWhile (\<lambda>u. u \<noteq> 95) (rev s))"

text \<open>
  \<open>parseInt(s)\<close> with no radix: leading white space, a sign, an optional \<open>0x\<close> prefix,
  then the longest run of digits of the radix; \<open>None\<close> is NaN. The value is the exact
  integer (JavaScript rounds beyond \<open>2^53\<close>).
\<close>

definition digitVal :: "nat \<Rightarrow> nat" where
  "digitVal u = (if isDigit u then u - 48 else if isLower u then u - 87 else u - 55)"

definition isRadixDigit :: "nat \<Rightarrow> nat \<Rightarrow> bool" where
  "isRadixDigit radix u =
     (isDigit u \<or> (radix = 16 \<and> ((97 \<le> u \<and> u \<le> 102) \<or> (65 \<le> u \<and> u \<le> 70))))"

definition numeral_of :: "nat \<Rightarrow> jstr \<Rightarrow> nat" where
  "numeral_of radix ds = foldl (\<lambda>a u. a * radix + digitVal u) 0 ds"

definition stripSign :: "jstr \<Rightarrow> bool \<times> jstr" where
  "stripSign s = (case s of
      [] \<Rightarrow> (False, [])
    | c # r \<Rightarrow> if c = 45 then (True, r) else if c = 43 then (False, r) else (False, s))"

definition stripRadix :: "jstr \<Rightarrow> nat \<times> jstr" where
  "stripRadix s = (case s of
      a # b # r \<Rightarrow> if a = 48 \<and> (b = 120 \<or> b = 88) then (16, r) else (10, s)
    | _ \<Rightarrow> (10, s))"

definition parseInt :: "jstr \<Rightarrow> int option" where
  "parseInt s =
     (let (neg, t1) = stripSign (dropWhile isSpace s);
          (radix, t2) = stripRadix t1;
          ds = takeWhile (isRadixDigit radix) t2
      in if ds = [] then None
         else Some ((if neg then - 1 else 1) * int (numeral_of radix ds)))"

text \<open>
  \<open>parseFloat(s)\<close>: leading white space, a sign, digits, an optional point with digits,
  an optional exponent; \<open>None\<close> is NaN. The value is the exact decimal, a rational
  (JavaScript rounds it to the nearest double; the literal \<open>Infinity\<close> is left out).
\<close>

definition exponentOf :: "jstr \<Rightarrow> int" where
  "exponentOf s = (case s of
      [] \<Rightarrow> 0
    | e # r \<Rightarrow>
        if e = 101 \<or> e = 69 then
          (let (neg, r1) = stripSign r; ds = takeWhile isDigit r1
           in if ds = [] then 0 else (if neg then - 1 else 1) * int (numeral_of 10 ds))
        else 0)"

definition scale10 :: "rat \<Rightarrow> int \<Rightarrow> rat" where
  "scale10 q e = (if e < 0 then q / 10 ^ nat (- e) else q * 10 ^ nat e)"

definition parseFloat :: "jstr \<Rightarrow> rat option" where
  "parseFloat s =
     (let (neg, t1) = stripSign (dropWhile isSpace s);
          d1 = takeWhile isDigit t1;
          r1 = dropWhile isDigit t1;
          pt = (r1 \<noteq> [] \<and> hd r1 = 46);
          d2 = (if pt then takeWhile isDigit (tl r1) else []);
          r2 = (if pt then dropWhile isDigit (tl r1) else r1);
          mant = of_nat (numeral_of 10 d1) + of_nat (numeral_of 10 d2) / 10 ^ length d2
      in if d1 = [] \<and> d2 = [] then None
         else Some ((if neg then - 1 else 1) * scale10 mant (exponentOf r2)))"

text \<open>
  The first match of \<open>/[-+]?[0-9]*\.?[0-9]+/\<close> in a string. At one position: an
  optional sign, the longest run of digits, and a point only when a digit follows it;
  a run of digits with no such fraction matches alone, and with neither there is no
  match at this position.
\<close>

definition numberAt :: "jstr \<Rightarrow> jstr option" where
  "numberAt s =
     (let sg = (if s \<noteq> [] \<and> (hd s = 45 \<or> hd s = 43) then [hd s] else []);
          t = drop (length sg) s;
          d1 = takeWhile isDigit t;
          r1 = dropWhile isDigit t;
          d2 = (if r1 \<noteq> [] \<and> hd r1 = 46 then takeWhile isDigit (tl r1) else [])
      in if d2 \<noteq> [] then Some (sg @ d1 @ [46] @ d2)
         else if d1 \<noteq> [] then Some (sg @ d1)
         else None)"

fun matchNumber :: "jstr \<Rightarrow> jstr option" where
  "matchNumber [] = None"
| "matchNumber (c # cs) =
     (case numberAt (c # cs) of Some m \<Rightarrow> Some m | None \<Rightarrow> matchNumber cs)"

text \<open>The first match of \<open>/sum\s+(\w+)/i\<close>: its capture group.\<close>

definition sumAt :: "jstr \<Rightarrow> jstr option" where
  "sumAt s =
     (if toLowerCase (take 3 s) = lit ''sum'' then
        (let r = drop 3 s; w = takeWhile isWordChar (dropWhile isSpace r)
         in if takeWhile isSpace r \<noteq> [] \<and> w \<noteq> [] then Some w else None)
      else None)"

fun matchSum :: "jstr \<Rightarrow> jstr option" where
  "matchSum [] = None"
| "matchSum (c # cs) =
     (case sumAt (c # cs) of Some w \<Rightarrow> Some w | None \<Rightarrow> matchSum cs)"

text \<open>\<open>/^[A-Z]+[0-9]+$/\<close>, and the same with the \<open>i\<close> flag.\<close>

definition isCellAddress :: "jstr \<Rightarrow> bool" where
  "isCellAddress s =
     (takeWhile isUpper s \<noteq> [] \<and> dropWhile isUpper s \<noteq> []
      \<and> list_all isDigit (dropWhile isUpper s))"

definition isLetter :: "nat \<Rightarrow> bool" where
  "isLetter u = (isUpper u \<or> isLower u)"

definition isCellAddressCI :: "jstr \<Rightarrow> bool" where
  "isCellAddressCI s =
     (takeWhile isLetter s \<noteq> [] \<and> dropWhile isLetter s \<noteq> []
      \<and> list_all isDigit (dropWhile isLetter s))"

text \<open>
  The cleaning of a note on the results-sheet path:
  \<open>note.replace(/^[^a-zA-Z0-9]+/, "").replace(/\n+/g, " ").trim()\<close>.
  In \<open>collapseNewlines\<close> the flag says that the previous unit was a newline too.
\<close>

fun collapseNewlines :: "bool \<Rightarrow> jstr \<Rightarrow> jstr" where
  "collapseNewlines prev [] = []"
| "collapseNewlines prev (c # cs) =
     (if c = 10 then (if prev then collapseNewlines True cs else 32 # collapseNewlines True cs)
      else c # collapseNewlines False cs)"

definition cleanText :: "jstr \<Rightarrow> jstr" where
  "cleanText n = trim (collapseNewlines False (dropWhile (\<lambda>u. \<not> isAlnum u) n))"

text \<open>\<open>indexToColumnName\<close>: a 1-based column index as Excel letters.\<close>

function indexToColumnName :: "nat \<Rightarrow> jstr" where
  "indexToColumnName index =
     (if index > 0 then indexToColumnName ((index - 1) div 26) @ fromCharCode (65 + (index - 1) mod 26)
      else [])"
  by pat_completeness auto
termination
  by (relation "measure id") (auto simp: le_imp_less_Suc)

declare indexToColumnName.simps [simp del]

section \<open>Cells, sheets and the workbook\<close>

text \<open>
  A cell value as the task pane sees it (\<open>any\<close>): \<open>null\<close>, \<open>undefined\<close>, a string, a
  number (an exact rational), NaN or a boolean. An empty cell reads as the empty string.
\<close>

datatype cell = CNull | CUndef | CStr jstr | CNum rat | CNaN | CBool bool

text \<open>
  A sheet: its cells by zero-based (row, column), the used range the host reports
  (top row, left column, row count, column count; \<open>None\<close> is the null object of
  \<open>getUsedRangeOrNullObject\<close>) and the images inserted into it. Formatting (bold,
  alignment, autofit) is presentation only and is left out.
\<close>

record sheet =
  cells :: "nat \<times> nat \<Rightarrow> cell"
  used :: "(nat \<times> nat \<times> nat \<times> nat) option"
  images :: "jstr list"

definition emptySheet :: sheet where
  "emptySheet = \<lparr>cells = (\<lambda>_. CStr []), used = None, images = []\<rparr>"

text \<open>
  The workbook: the worksheets in order, by name, the name of the active one, and the
  host's resolution of an address string to a cell (\<open>None\<close>: the host rejects the
  address and the call throws at the next \<open>context.sync()\<close>).
\<close>

record workbook =
  sheets :: "(jstr \<times> sheet) list"
  active :: jstr
  resolve :: "jstr \<Rightarrow> (nat \<times> nat) option"

datatype error = InvalidCellAddress jstr | CellOccupied jstr | HostError

definition getSheet :: "workbook \<Rightarrow> jstr \<Rightarrow> sheet option" where
  "getSheet wb name = map_of (sheets wb) name"

definition putSheet :: "workbook \<Rightarrow> jstr \<Rightarrow> sheet \<Rightarrow> workbook" where
  "putSheet wb name sh =
     wb\<lparr>sheets := map (\<lambda>(n, s). if n = name then (n, sh) else (n, s)) (sheets wb)\<rparr>"

text \<open>\<open>worksheets.add(name)\<close>: a new empty sheet at the end; a name in use is refused.\<close>

definition addSheet :: "workbook \<Rightarrow> jstr \<Rightarrow> workbook option" where
  "addSheet wb name =
     (if name \<in> set (map fst (sheets wb)) then None
      else Some (wb\<lparr>sheets := sheets wb @ [(name, emptySheet)]\<rparr>))"

text \<open>\<open>usedRange.values\<close>: the rows of the used range, relative to its top left cell.\<close>

definition usedValues :: "sheet \<Rightarrow> cell list list" where
  "usedValues sh = (case used sh of
      None \<Rightarrow> []
    | Some (r0, c0, rc, cc) \<Rightarrow>
        map (\<lambda>i. map (\<lambda>j. cells sh (r0 + i, c0 + j)) [0..<cc]) [0..<rc])"

definition usedRowCount :: "sheet \<Rightarrow> nat" where
  "usedRowCount sh = (case used sh of None \<Rightarrow> 0 | Some (r0, c0, rc, cc) \<Rightarrow> rc)"

text \<open>The smallest rectangle holding the used range so far and a written block.\<close>

fun boundingBox :: "(nat \<times> nat \<times> nat \<times> nat) option \<Rightarrow> nat \<times> nat \<times> nat \<times> nat
    \<Rightarrow> nat \<times> nat \<times> nat \<times> nat" where
  "boundingBox None b = b"
| "boundingBox (Some (r, c, h, w)) (r2, c2, h2, w2) =
     (min r r2, min c c2, max (r + h) (r2 + h2) - min r r2, max (c + w) (c2 + w2) - min c c2)"

text \<open>\<open>range.values = [[v]]\<close> on a single cell.\<close>

definition setCell :: "sheet \<Rightarrow> nat \<times> nat \<Rightarrow> cell \<Rightarrow> sheet" where
  "setCell sh rc v =
     sh\<lparr>cells := (cells sh)(rc := v), used := Some (boundingBox (used sh) (fst rc, snd rc, 1, 1))\<rparr>"

text \<open>
  \<open>range.values = rows\<close> on the block of \<open>h\<close> rows and \<open>w\<close> columns at row \<open>r\<close>,
  column \<open>c\<close>. The host refuses an empty block and rows whose shape is not the block's;
  a \<open>null\<close> in the rows leaves its cell as it is.
\<close>

definition blockCell :: "sheet \<Rightarrow> nat \<Rightarrow> nat \<Rightarrow> cell list list \<Rightarrow> nat \<times> nat \<Rightarrow> cell" where
  "blockCell sh r c rows p =
     (case p of (i, j) \<Rightarrow>
        if r \<le> i \<and> i < r + length rows \<and> c \<le> j \<and> j < c + length (rows ! (i - r))
           \<and> rows ! (i - r) ! (j - c) \<noteq> CNull \<and> rows ! (i - r) ! (j - c) \<noteq> CUndef
        then rows ! (i - r) ! (j - c)
        else cells sh p)"

definition writeBlock :: "sheet \<Rightarrow> nat \<Rightarrow> nat \<Rightarrow> nat \<Rightarrow> nat \<Rightarrow> cell list list \<Rightarrow> sheet option" where
  "writeBlock sh r c h w rows =
     (if 0 < h \<and> 0 < w \<and> length rows = h \<and> list_all (\<lambda>row. length row = w) rows
      then Some (sh\<lparr>cells := blockCell sh r c rows, used := Some (boundingBox (used sh) (r, c, h, w))\<rparr>)
      else None)"

section \<open>Excel helpers\<close>

subsection \<open>\<open>getExcelData\<close>\<close>

definition getExcelData :: "workbook \<Rightarrow> error + cell list list" where
  "getExcelData wb = (case getSheet wb (active wb) of
      None \<Rightarrow> Inl HostError
    | Some sh \<Rightarrow> Inr (usedValues sh))"

subsection \<open>\<open>findPlacementCell\<close>\<close>

record placement =
  found :: bool
  cellAddress :: "jstr option"
  occupied :: bool

text \<open>JavaScript truthiness, and \<open>String(h)\<close>; \<open>numStr\<close> is the run-time's printing of a number.\<close>

definition truthy :: "cell \<Rightarrow> bool" where
  "truthy v = (case v of
      CStr s \<Rightarrow> s \<noteq> []
    | CNum q \<Rightarrow> q \<noteq> 0
    | CBool b \<Rightarrow> b
    | _ \<Rightarrow> False)"

definition toStr :: "(rat \<Rightarrow> jstr) \<Rightarrow> cell \<Rightarrow> jstr" where
  "toStr numStr v = (case v of
      CNull \<Rightarrow> lit ''null''
    | CUndef \<Rightarrow> lit ''undefined''
    | CStr s \<Rightarrow> s
    | CNum q \<Rightarrow> numStr q
    | CNaN \<Rightarrow> lit ''NaN''
    | CBool b \<Rightarrow> (if b then lit ''true'' else lit ''false''))"

text \<open>The predicate of \<open>headerRow.findIndex\<close>.\<close>

definition headerMatches :: "(rat \<Rightarrow> jstr) \<Rightarrow> jstr \<Rightarrow> cell \<Rightarrow> bool" where
  "headerMatches numStr columnName h =
     (truthy h \<and> jsIncludes (toLowerCase (toStr numStr h)) (toLowerCase columnName))"

fun findIndex :: "('a \<Rightarrow> bool) \<Rightarrow> 'a list \<Rightarrow> nat option" where
  "findIndex P [] = None"
| "findIndex P (x # xs) = (if P x then Some 0 else map_option Suc (findIndex P xs))"

text \<open>\<open>values[i][targetIndex]\<close>: \<open>undefined\<close> beyond the end of the row.\<close>

definition cellAt :: "cell list \<Rightarrow> nat \<Rightarrow> cell" where
  "cellAt row t = (if t < length row then row ! t else CUndef)"

definition filled :: "cell \<Rightarrow> bool" where
  "filled v = (v \<noteq> CNull \<and> v \<noteq> CStr [] \<and> v \<noteq> CUndef)"

text \<open>
  The loop \<open>for (let i = 1; i < values.length; i++)\<close>: the rows still to visit, the
  index \<open>i\<close> of the first of them, and \<open>lastRow\<close> so far.
\<close>

fun scanLastRow :: "nat \<Rightarrow> cell list list \<Rightarrow> nat \<Rightarrow> nat \<Rightarrow> nat" where
  "scanLastRow t [] i lastRow = lastRow"
| "scanLastRow t (row # rows) i lastRow =
     scanLastRow t rows (Suc i) (if filled (cellAt row t) then i else lastRow)"

text \<open>The address computed from the used values and the matched column.\<close>

definition placementAddress :: "cell list list \<Rightarrow> nat \<Rightarrow> jstr" where
  "placementAddress vals targetIndex =
     (let lastRow = scanLastRow targetIndex (tl vals) 1 0;
          nextRow = lastRow + 2;
          colLetter = fromCharCode (65 + targetIndex)
      in colLetter @ digitsOf nextRow)"

definition findPlacementCell :: "(rat \<Rightarrow> jstr) \<Rightarrow> jstr \<Rightarrow> workbook \<Rightarrow> error + placement" where
  "findPlacementCell numStr columnName wb =
     (case getSheet wb (active wb) of
        None \<Rightarrow> Inl HostError
      | Some sh \<Rightarrow>
          (let vals = usedValues sh in
           if vals = [] then Inr \<lparr>found = False, cellAddress = Some (lit ''A1''), occupied = False\<rparr>
           else
             (case findIndex (headerMatches numStr columnName) (hd vals) of
                None \<Rightarrow> Inr \<lparr>found = False, cellAddress = None, occupied = False\<rparr>
              | Some targetIndex \<Rightarrow>
                  (let a = placementAddress vals targetIndex in
                   case resolve wb a of
                     None \<Rightarrow> Inl HostError
                   | Some rc \<Rightarrow>
                       Inr \<lparr>found = True, cellAddress = Some a,
                            occupied = (cells sh rc \<noteq> CNull \<and> cells sh rc \<noteq> CStr [])\<rparr>))))"

subsection \<open>\<open>writeResult\<close>\<close>

text \<open>The suffix read off a sheet name, and the next \<open>AI_Results_n\<close>.\<close>

definition nameNumber :: "jstr \<Rightarrow> int" where
  "nameNumber m =
     (let p = lastSegment m
      in case parseInt (if p = [] then lit ''0'' else p) of None \<Rightarrow> 0 | Some v \<Rightarrow> v)"

definition maxOf :: "int list \<Rightarrow> int" where
  "maxOf nums = foldl max (hd nums) (tl nums)"

definition nextResultsName :: "jstr list \<Rightarrow> jstr" where
  "nextResultsName names =
     (let matches = filter (\<lambda>n. startsWith n (lit ''AI_Results'')) names;
          next = (if matches \<noteq> [] then maxOf (map nameNumber matches) + 1 else 1)
      in lit ''AI_Results_'' @ showInt next)"

text \<open>The sheet the result goes to: a new results sheet, or the active one.\<close>

definition selectSheet :: "bool \<Rightarrow> workbook \<Rightarrow> error + (workbook \<times> jstr)" where
  "selectSheet newSheet wb =
     (if newSheet then
        (let newName = nextResultsName (map fst (sheets wb))
         in case addSheet wb newName of
              None \<Rightarrow> Inl HostError
            | Some wb' \<Rightarrow> Inr (wb', newName))
      else
        (case getSheet wb (active wb) of
           None \<Rightarrow> Inl HostError
         | Some sh \<Rightarrow> Inr (wb, active wb)))"

text \<open>The value written for a note: its first number, or the note itself.\<close>

definition noteValue :: "jstr \<Rightarrow> cell" where
  "noteValue n = (case matchNumber n of
      None \<Rightarrow> CStr n
    | Some m \<Rightarrow> (case parseFloat m of None \<Rightarrow> CNaN | Some q \<Rightarrow> CNum q))"

definition normAddress :: "jstr option \<Rightarrow> jstr" where
  "normAddress cellAddr = (case cellAddr of
      None \<Rightarrow> lit ''A1''
    | Some a \<Rightarrow> if a = [] then lit ''A1'' else toUpperCase a)"

text \<open>
  \<open>writeResult(note, newSheet, cellAddress, overwrite)\<close>: what it throws or returns, and
  the workbook it leaves (a results sheet added before a throw stays).
\<close>

definition writeResult :: "jstr \<Rightarrow> bool \<Rightarrow> jstr option \<Rightarrow> bool \<Rightarrow> workbook
    \<Rightarrow> (error + unit) \<times> workbook" where
  "writeResult n newSheet cellAddr overwrite wb =
     (case selectSheet newSheet wb of
        Inl e \<Rightarrow> (Inl e, wb)
      | Inr (wb1, name) \<Rightarrow>
          (let a = normAddress cellAddr in
           if \<not> isCellAddressCI a then (Inl (InvalidCellAddress a), wb1)
           else
             (case (getSheet wb1 name, resolve wb1 a) of
                (Some sh, Some rc) \<Rightarrow>
                  (let cur = cells sh rc in
                   if cur \<noteq> CNull \<and> cur \<noteq> CStr [] \<and> \<not> overwrite
                   then (Inl (CellOccupied a), wb1)
                   else (Inr (), putSheet wb1 name (setCell sh rc (noteValue n))))
              | _ \<Rightarrow> (Inl HostError, wb1))))"

subsection \<open>\<open>insertChartImageOnSheet\<close>\<close>

text \<open>
  The image payload without its data-URL prefix: what follows the first \<open>base64,\<close>.
\<close>

fun stripDataUrl :: "jstr \<Rightarrow> jstr \<Rightarrow> jstr" where
  "stripDataUrl whole [] = whole"
| "stripDataUrl whole (c # cs) =
     (if startsWith (c # cs) (lit ''base64,'') then drop 7 (c # cs) else stripDataUrl whole cs)"

text \<open>
  The sheet is the named one (added when it does not exist) or the active one; the
  image is added to its shapes. Position and size of the image are pixel geometry and
  are left out.
\<close>

definition insertChartImageOnSheet :: "jstr \<Rightarrow> jstr option \<Rightarrow> workbook \<Rightarrow> (error + unit) \<times> workbook" where
  "insertChartImageOnSheet chartBase64 sheetName wb =
     (let named = (case sheetName of None \<Rightarrow> False | Some n \<Rightarrow> n \<noteq> []);
          name = (if named then the sheetName else active wb);
          wb1 = (if named \<and> getSheet wb name = None then wb\<lparr>sheets := sheets wb @ [(name, emptySheet)]\<rparr> else wb)
      in case getSheet wb1 name of
           None \<Rightarrow> (Inl HostError, wb1)
         | Some sh \<Rightarrow>
             (Inr (), putSheet wb1 name (sh\<lparr>images := images sh @ [stripDataUrl chartBase64 chartBase64]\<rparr>)))"

subsection \<open>Upload placement helpers\<close>

text \<open>
  The writes of one helper are queued and sent with a single \<open>context.sync()\<close>; a batch
  the host refuses is modelled as leaving the workbook as it was. The result is the
  start cell (or sheet name) the helper reports.
\<close>

definition nonBlank :: "cell \<Rightarrow> bool" where
  "nonBlank v = (v \<noteq> CStr [] \<and> v \<noteq> CNull)"

text \<open>
  \<open>firstRow.reduceRight((acc, val, idx) => (acc === -1 && val !== "" && val !== null ? idx : acc), -1)\<close>
\<close>

definition lastFilled :: "cell list \<Rightarrow> int" where
  "lastFilled firstRow =
     foldl (\<lambda>acc (idx, val). if acc = - 1 \<and> nonBlank val then int idx else acc) (- 1)
       (rev (zip [0..<length firstRow] firstRow))"

definition createSheetFromUpload :: "jstr \<Rightarrow> jstr list \<Rightarrow> cell list list \<Rightarrow> workbook
    \<Rightarrow> (error + jstr) \<times> workbook" where
  "createSheetFromUpload sheetName headers dataRows wb =
     (case (addSheet wb sheetName, resolve wb (lit ''A1''), resolve wb (lit ''A2'')) of
        (Some wb1, Some (r1, c1), Some (r2, c2)) \<Rightarrow>
          (case writeBlock emptySheet r1 c1 1 (length headers) [map CStr headers] of
             None \<Rightarrow> (Inl HostError, wb)
           | Some sh1 \<Rightarrow>
               if dataRows \<noteq> [] then
                 (case writeBlock sh1 r2 c2 (length dataRows) (length headers) dataRows of
                    None \<Rightarrow> (Inl HostError, wb)
                  | Some sh2 \<Rightarrow> (Inr sheetName, putSheet wb1 sheetName sh2))
               else (Inr sheetName, putSheet wb1 sheetName sh1))
      | _ \<Rightarrow> (Inl HostError, wb))"

definition appendUploadToActiveSheet :: "jstr list \<Rightarrow> cell list list \<Rightarrow> workbook
    \<Rightarrow> (error + jstr) \<times> workbook" where
  "appendUploadToActiveSheet headers dataRows wb =
     (case getSheet wb (active wb) of
        None \<Rightarrow> (Inl HostError, wb)
      | Some sh \<Rightarrow>
          (let vals = usedValues sh;
               startColumn = (if vals \<noteq> [] \<and> lastFilled (hd vals) \<ge> 0
                              then nat (lastFilled (hd vals)) + 1 else 0);
               startCell = indexToColumnName (startColumn + 1) @ lit ''1''
           in case writeBlock sh 0 startColumn 1 (length headers) [map CStr headers] of
                None \<Rightarrow> (Inl HostError, wb)
              | Some sh1 \<Rightarrow>
                  if length dataRows > 0 then
                    (case writeBlock sh1 1 startColumn (length dataRows) (length headers) dataRows of
                       None \<Rightarrow> (Inl HostError, wb)
                     | Some sh2 \<Rightarrow> (Inr startCell, putSheet wb (active wb) sh2))
                  else (Inr startCell, putSheet wb (active wb) sh1)))"

definition appendUploadToActiveSheetVertical :: "jstr list \<Rightarrow> cell list list \<Rightarrow> workbook
    \<Rightarrow> (error + jstr) \<times> workbook" where
  "appendUploadToActiveSheetVertical headers dataRows wb =
     (case getSheet wb (active wb) of
        None \<Rightarrow> (Inl HostError, wb)
      | Some sh \<Rightarrow>
          (let vals = usedValues sh;
               hasHeader = (vals \<noteq> [] \<and> list_ex nonBlank (hd vals));
               startRow = (if hasHeader then length vals else 1);
               withHeader = (if hasHeader then Some sh
                             else writeBlock sh 0 0 1 (length headers) [map CStr headers])
           in case withHeader of
                None \<Rightarrow> (Inl HostError, wb)
              | Some sh1 \<Rightarrow>
                  (case writeBlock sh1 startRow 0 (length dataRows) (length headers) dataRows of
                     None \<Rightarrow> (Inl HostError, wb)
                   | Some sh2 \<Rightarrow>
                       (Inr (lit ''A'' @ digitsOf (startRow + 1)), putSheet wb (active wb) sh2))))"

text \<open>\<open>writeUploadToEmptySheet\<close>: \<open>Inr False\<close> is \<open>{ ok: false, reason: "sheet_not_empty" }\<close>.\<close>

definition writeUploadToEmptySheet :: "jstr list \<Rightarrow> cell list list \<Rightarrow> workbook
    \<Rightarrow> (error + bool) \<times> workbook" where
  "writeUploadToEmptySheet headers dataRows wb =
     (case getSheet wb (active wb) of
        None \<Rightarrow> (Inl HostError, wb)
      | Some sh \<Rightarrow>
          if usedRowCount sh > 0 then (Inr False, wb)
          else
            (case (resolve wb (lit ''A1''), resolve wb (lit ''A2'')) of
               (Some (r1, c1), Some (r2, c2)) \<Rightarrow>
                 (let w = max 0 (length headers - 1) + 1 in
                  case writeBlock sh r1 c1 1 w [map CStr headers] of
                    None \<Rightarrow> (Inl HostError, wb)
                  | Some sh1 \<Rightarrow>
                      if length dataRows > 0 then
                        (case writeBlock sh1 r2 c2 (length dataRows) w dataRows of
                           None \<Rightarrow> (Inl HostError, wb)
                         | Some sh2 \<Rightarrow> (Inr True, putSheet wb (active wb) sh2))
                      else (Inr True, putSheet wb (active wb) sh1))
             | _ \<Rightarrow> (Inl HostError, wb)))"

section \<open>The task pane: pending placement and the send handler\<close>

text \<open>
  The messages the component pushes to the chat, one constructor for each text of the
  source with the values it interpolates.
\<close>

datatype message =
    UserMsg jstr
  | AiPreview jstr "jstr option"
  | ChartPlacedTop
  | ColumnNotFound jstr
  | SuggestedOccupied "jstr option"
  | PlacedAt "jstr option"
  | PlacedA1Fallback
  | FailedToPlace error
  | NoResultWaiting
  | AskTargetCell
  | ResultOnNewSheet
  | ChartPlacedOn jstr
  | AppendedAt jstr jstr
  | FailedResultsSheet error
  | PlacementSkipped
  | ChartPlacedOverwrite
  | Overwrote jstr
  | FailedOverwrite error
  | ConfirmOverwriteHint
  | InvalidCell
  | CellOccupiedPrompt jstr
  | ChartPlacedNear jstr
  | PlacedAtCell jstr
  | FinishPlacementFirst
  | NoBackendResponse
  | BackendError jstr
  | BackendErrorDefault
  | NetworkError

record overwrite_req =
  addr :: jstr
  chartFlag :: bool

record pending =
  noteText :: jstr
  chart :: "jstr option"
  suggestedColumn :: "jstr option"
  awaitingCell :: bool
  awaitingOverwrite :: "overwrite_req option"

record request =
  user_message :: jstr
  excel_data :: "cell list list"
  chat_history :: "message list"

text \<open>What the backend answers: the fetch fails, no data, or \<open>{ok, note, chart}\<close>.\<close>

datatype response = NetworkFailure | NoData | Reply bool jstr "jstr option"

text \<open>
  The state of the component and of its collaborators: the chat, the input box, the
  pending placement, the workbook, and the requests sent to the backend so far. The
  loading indicator is presentation only and is left out.
\<close>

record app_state =
  messages :: "message list"
  input :: jstr
  pendingPlacement :: "pending option"
  workbook :: workbook
  requests :: "request list"

definition pushMessage :: "app_state \<Rightarrow> message \<Rightarrow> app_state" where
  "pushMessage st m = st\<lparr>messages := messages st @ [m]\<rparr>"

definition clearPendingPlacement :: "app_state \<Rightarrow> app_state" where
  "clearPendingPlacement st = st\<lparr>pendingPlacement := None\<rparr>"

definition setInput :: "app_state \<Rightarrow> jstr \<Rightarrow> app_state" where
  "setInput st s = st\<lparr>input := s\<rparr>"

text \<open>Truthiness of an optional string (\<open>if (pendingPlacement.chart)\<close>).\<close>

definition present :: "jstr option \<Rightarrow> bool" where
  "present x = (case x of None \<Rightarrow> False | Some s \<Rightarrow> s \<noteq> [])"

definition orEmpty :: "jstr option \<Rightarrow> jstr" where
  "orEmpty x = (case x of None \<Rightarrow> [] | Some s \<Rightarrow> s)"

subsection \<open>\<open>handlePlaceInExcelForChartOrBelow\<close>\<close>

text \<open>
  The body of the \<open>try\<close>, with its \<open>catch\<close>; the \<open>finally\<close> block, which runs after
  every path through it (the early \<open>return\<close> of the occupied case too), clears the
  pending placement.
\<close>

definition placeBody :: "(rat \<Rightarrow> jstr) \<Rightarrow> pending \<Rightarrow> app_state \<Rightarrow> app_state" where
  "placeBody numStr p st =
     (if present (chart p) then
        (case insertChartImageOnSheet (orEmpty (chart p)) None (workbook st) of
           (Inl e, wb) \<Rightarrow> pushMessage (st\<lparr>workbook := wb\<rparr>) (FailedToPlace e)
         | (Inr u, wb) \<Rightarrow> pushMessage (st\<lparr>workbook := wb\<rparr>) ChartPlacedTop)
      else if present (suggestedColumn p) then
        (case findPlacementCell numStr (orEmpty (suggestedColumn p)) (workbook st) of
           Inl e \<Rightarrow> pushMessage st (FailedToPlace e)
         | Inr pl \<Rightarrow>
             if \<not> found pl then pushMessage st (ColumnNotFound (orEmpty (suggestedColumn p)))
             else if occupied pl then
               (pushMessage st (SuggestedOccupied (cellAddress pl)))
                 \<lparr>pendingPlacement :=
                    Some (p\<lparr>awaitingOverwrite :=
                            Some \<lparr>addr = orEmpty (cellAddress pl), chartFlag = False\<rparr>\<rparr>)\<rparr>
             else
               (case writeResult (noteText p) False (cellAddress pl) False (workbook st) of
                  (Inl e, wb) \<Rightarrow> pushMessage (st\<lparr>workbook := wb\<rparr>) (FailedToPlace e)
                | (Inr u, wb) \<Rightarrow> pushMessage (st\<lparr>workbook := wb\<rparr>) (PlacedAt (cellAddress pl))))
      else
        (case writeResult (noteText p) False (Some (lit ''A1'')) False (workbook st) of
           (Inl e, wb) \<Rightarrow> pushMessage (st\<lparr>workbook := wb\<rparr>) (FailedToPlace e)
         | (Inr u, wb) \<Rightarrow> pushMessage (st\<lparr>workbook := wb\<rparr>) PlacedA1Fallback))"

definition handlePlaceInExcelForChartOrBelow :: "(rat \<Rightarrow> jstr) \<Rightarrow> app_state \<Rightarrow> app_state" where
  "handlePlaceInExcelForChartOrBelow numStr st =
     (case pendingPlacement st of
        None \<Rightarrow> st
      | Some p \<Rightarrow> clearPendingPlacement (placeBody numStr p st))"

subsection \<open>\<open>handlePlaceInSpecificCell\<close> and \<open>handleDontPlace\<close>\<close>

definition handlePlaceInSpecificCell :: "app_state \<Rightarrow> app_state" where
  "handlePlaceInSpecificCell st =
     (case pendingPlacement st of
        None \<Rightarrow> pushMessage st NoResultWaiting
      | Some p \<Rightarrow>
          pushMessage (st\<lparr>pendingPlacement := Some (p\<lparr>awaitingCell := True\<rparr>)\<rparr>) AskTargetCell)"

definition handleDontPlace :: "app_state \<Rightarrow> app_state" where
  "handleDontPlace st =
     clearPendingPlacement
       (if pendingPlacement st \<noteq> None then pushMessage st PlacementSkipped else st)"

subsection \<open>\<open>handlePlaceOnResultsSheet\<close>\<close>

text \<open>
  The last part of the handler (\<open>now insert into targetSheetName\<close>): the chart, or the
  cleaned note in column A below the used rows of the target sheet.
\<close>

definition insertIntoTarget :: "pending \<Rightarrow> jstr \<Rightarrow> app_state \<Rightarrow> app_state" where
  "insertIntoTarget p target st =
     (if present (chart p) then
        (case insertChartImageOnSheet (orEmpty (chart p)) (Some target) (workbook st) of
           (Inl e, wb) \<Rightarrow> pushMessage (st\<lparr>workbook := wb\<rparr>) (FailedResultsSheet e)
         | (Inr u, wb) \<Rightarrow>
             clearPendingPlacement (pushMessage (st\<lparr>workbook := wb\<rparr>) (ChartPlacedOn target)))
      else
        (case getSheet (workbook st) target of
           None \<Rightarrow> pushMessage st (FailedResultsSheet HostError)
         | Some sh \<Rightarrow>
             (let row = usedRowCount sh;
                  putCell = lit ''A'' @ digitsOf (row + 1);
                  descriptiveText = cleanText (noteText p)
              in case resolve (workbook st) putCell of
                   None \<Rightarrow> pushMessage st (FailedResultsSheet HostError)
                 | Some rc \<Rightarrow>
                     clearPendingPlacement
                       (pushMessage
                          (st\<lparr>workbook :=
                               putSheet (workbook st) target (setCell sh rc (CStr descriptiveText))\<rparr>)
                          (AppendedAt target putCell)))))"

definition handlePlaceOnResultsSheet :: "bool \<Rightarrow> app_state \<Rightarrow> app_state" where
  "handlePlaceOnResultsSheet createNew st =
     (case pendingPlacement st of
        None \<Rightarrow> st
      | Some p \<Rightarrow>
          (let names = map fst (sheets (workbook st));
               matches = filter (\<lambda>n. startsWith n (lit ''AI_Results'')) names;
               targetSheetName = (if matches = [] \<or> createNew then None
                                  else Some (last (sort matches)))
           in if \<not> present targetSheetName \<or> createNew then
                (if present (chart p) then
                   (let newName = nextResultsName names
                    in case addSheet (workbook st) newName of
                         None \<Rightarrow> pushMessage st (FailedResultsSheet HostError)
                       | Some wb \<Rightarrow> insertIntoTarget p newName (st\<lparr>workbook := wb\<rparr>))
                 else
                   (case writeResult (noteText p) True (Some (lit ''A1'')) False (workbook st) of
                      (Inl e, wb) \<Rightarrow> pushMessage (st\<lparr>workbook := wb\<rparr>) (FailedResultsSheet e)
                    | (Inr u, wb) \<Rightarrow>
                        clearPendingPlacement (pushMessage (st\<lparr>workbook := wb\<rparr>) ResultOnNewSheet)))
              else insertIntoTarget p (orEmpty targetSheetName) st))"

subsection \<open>\<open>handleSend\<close>\<close>

text \<open>1) Awaiting the overwrite confirmation.\<close>

definition sendOverwrite :: "pending \<Rightarrow> overwrite_req \<Rightarrow> app_state \<Rightarrow> app_state" where
  "sendOverwrite p ow st =
     (let text = toLowerCase (trim (input st));
          a = addr ow
      in if text = lit ''overwrite'' \<or> text = lit ''overwrite '' @ toLowerCase a then
           setInput
             (if present (chart p) then
                (case insertChartImageOnSheet (orEmpty (chart p)) None (workbook st) of
                   (Inl e, wb) \<Rightarrow> pushMessage (st\<lparr>workbook := wb\<rparr>) (FailedOverwrite e)
                 | (Inr u, wb) \<Rightarrow>
                     clearPendingPlacement (pushMessage (st\<lparr>workbook := wb\<rparr>) ChartPlacedOverwrite))
              else
                (case writeResult (noteText p) False (Some a) True (workbook st) of
                   (Inl e, wb) \<Rightarrow> pushMessage (st\<lparr>workbook := wb\<rparr>) (FailedOverwrite e)
                 | (Inr u, wb) \<Rightarrow>
                     clearPendingPlacement (pushMessage (st\<lparr>workbook := wb\<rparr>) (Overwrote a))))
             []
         else setInput (pushMessage st ConfirmOverwriteHint) [])"

text \<open>
  2) Awaiting a cell address. In the occupied case the callback of \<open>Excel.run\<close> returns
  early, and \<open>clearPendingPlacement()\<close>, which follows the call, runs all the same.
\<close>

definition sendCell :: "pending \<Rightarrow> app_state \<Rightarrow> app_state" where
  "sendCell p st =
     (let a = toUpperCase (trim (input st))
      in if \<not> isCellAddress a then setInput (pushMessage st InvalidCell) []
         else
           setInput
             (case (getSheet (workbook st) (active (workbook st)), resolve (workbook st) a) of
                (Some sh, Some rc) \<Rightarrow>
                  if cells sh rc \<noteq> CNull \<and> cells sh rc \<noteq> CStr [] then
                    clearPendingPlacement
                      ((pushMessage st (CellOccupiedPrompt a))
                         \<lparr>pendingPlacement :=
                            Some (p\<lparr>awaitingCell := False,
                                    awaitingOverwrite := Some \<lparr>addr = a, chartFlag = False\<rparr>\<rparr>)\<rparr>)
                  else if present (chart p) then
                    (case insertChartImageOnSheet (orEmpty (chart p)) None (workbook st) of
                       (Inl e, wb) \<Rightarrow> pushMessage (st\<lparr>workbook := wb\<rparr>) (FailedToPlace e)
                     | (Inr u, wb) \<Rightarrow>
                         clearPendingPlacement (pushMessage (st\<lparr>workbook := wb\<rparr>) (ChartPlacedNear a)))
                  else
                    (case writeResult (noteText p) False (Some a) False (workbook st) of
                       (Inl e, wb) \<Rightarrow> pushMessage (st\<lparr>workbook := wb\<rparr>) (FailedToPlace e)
                     | (Inr u, wb) \<Rightarrow>
                         clearPendingPlacement (pushMessage (st\<lparr>workbook := wb\<rparr>) (PlacedAtCell a)))
              | _ \<Rightarrow> pushMessage st (FailedToPlace HostError))
             [])"

text \<open>4) The normal command flow: the request to the backend and its answer.\<close>

definition sendCommand :: "(request \<Rightarrow> response) \<Rightarrow> app_state \<Rightarrow> app_state" where
  "sendCommand backend st =
     (if trim (input st) = [] then st
      else
        (let userText = trim (input st);
             st1 = setInput (pushMessage st (UserMsg userText)) []
         in case getExcelData (workbook st) of
              Inl e \<Rightarrow> pushMessage st1 NetworkError
            | Inr vals \<Rightarrow>
                (let req = \<lparr>user_message = userText, excel_data = vals, chat_history = messages st\<rparr>;
                     st2 = st1\<lparr>requests := requests st1 @ [req]\<rparr>
                 in case backend req of
                      NetworkFailure \<Rightarrow> pushMessage st2 NetworkError
                    | NoData \<Rightarrow> pushMessage st2 NoBackendResponse
                    | Reply ok n c \<Rightarrow>
                        if \<not> ok then
                          pushMessage st2 (if n = [] then BackendErrorDefault else BackendError n)
                        else
                          (let aiText = (if n = [] then [9989, 32] @ lit ''Done'' else n);
                               ch = (if present c then c else None)
                           in (pushMessage st2 (AiPreview aiText ch))
                                \<lparr>pendingPlacement :=
                                   Some \<lparr>noteText = aiText, chart = ch,
                                         suggestedColumn = matchSum userText,
                                         awaitingCell = False, awaitingOverwrite = None\<rparr>\<rparr>))))"

definition handleSend :: "(request \<Rightarrow> response) \<Rightarrow> app_state \<Rightarrow> app_state" where
  "handleSend backend st =
     (case pendingPlacement st of
        None \<Rightarrow> sendCommand backend st
      | Some p \<Rightarrow>
          (case awaitingOverwrite p of
             Some ow \<Rightarrow> sendOverwrite p ow st
           | None \<Rightarrow>
               if awaitingCell p then sendCell p st
               else pushMessage st FinishPlacementFirst))"

section \<open>An example host\<close>

text \<open>
  The theorems below hold for every address resolution of the host. The examples use
  the usual one: column letters (either case) and a row number from 1, within the
  16384 columns and 1048576 rows of a sheet.
\<close>

definition columnNumber :: "jstr \<Rightarrow> nat" where
  "columnNumber ls = foldl (\<lambda>a u. a * 26 + (u - 64)) 0 ls"

definition a1Resolve :: "jstr \<Rightarrow> (nat \<times> nat) option" where
  "a1Resolve s =
     (let u = toUpperCase s; ls = takeWhile isUpper u; ds = dropWhile isUpper u
      in if ls \<noteq> [] \<and> ds \<noteq> [] \<and> list_all isDigit ds
            \<and> 1 \<le> numeral_of 10 ds \<and> numeral_of 10 ds \<le> 1048576
            \<and> columnNumber ls \<le> 16384
         then Some (numeral_of 10 ds - 1, columnNumber ls - 1)
         else None)"

text \<open>A sheet holding the given rows from its top left cell, nothing else.\<close>

definition sheetOf :: "cell list list \<Rightarrow> sheet" where
  "sheetOf rows =
     \<lparr>cells = (\<lambda>(i, j). if i < length rows \<and> j < length (rows ! i) then rows ! i ! j else CStr []),
      used = (if rows = [] then None else Some (0, 0, length rows, length (hd rows))),
      images = []\<rparr>"

definition bookOf :: "(jstr \<times> sheet) list \<Rightarrow> jstr \<Rightarrow> workbook" where
  "bookOf shs a = \<lparr>sheets = shs, active = a, resolve = a1Resolve\<rparr>"

text \<open>Example data: a one-sheet workbook and a pending note.\<close>

definition sumNote :: jstr where
  "sumNote = lit ''Sum: 42.5 units''"

definition pendingNote :: "jstr \<Rightarrow> pending" where
  "pendingNote n =
     \<lparr>noteText = n, chart = None, suggestedColumn = None, awaitingCell = False,
      awaitingOverwrite = None\<rparr>"

definition stateOf :: "workbook \<Rightarrow> pending \<Rightarrow> jstr \<Rightarrow> app_state" where
  "stateOf wb p typed =
     \<lparr>messages = [], input = typed, pendingPlacement = Some p, workbook = wb, requests = []\<rparr>"

definition oneSheet :: "cell list list \<Rightarrow> workbook" where
  "oneSheet rows = bookOf [(lit ''Sheet1'', sheetOf rows)] (lit ''Sheet1'')"


text \<open>A sheet whose third column has data but no header.\<close>

definition unlabelled :: "cell list list" where
  "unlabelled =
     [[CStr (lit ''Name''), CStr (lit ''Score''), CStr []],
      [CStr (lit ''a''), CNum 1, CStr (lit ''keep'')]]"



section \<open>Shared facts\<close>

lemmas char_defs = isDigit_def isUpper_def isLower_def isAlnum_def isWordChar_def isSpace_def
  isLetter_def

lemmas string_defs = lit_def toLowerCase_def toUpperCase_def trim_def fromCharCode_def
  showInt_def digitsOf.simps lastSegment_def digitVal_def isRadixDigit_def numeral_of_def
  stripSign_def stripRadix_def parseInt_def exponentOf_def scale10_def parseFloat_def
  numberAt_def sumAt_def isCellAddress_def isCellAddressCI_def cleanText_def

lemmas host_defs = columnNumber_def a1Resolve_def sheetOf_def bookOf_def oneSheet_def
  getSheet_def putSheet_def addSheet_def emptySheet_def setCell_def usedValues_def
  usedRowCount_def

lemmas example_defs = sumNote_def pendingNote_def stateOf_def





lemma map_of_put:
  "map_of xs name = Some sh \<Longrightarrow>
   map_of (map (\<lambda>(n, s). if n = name then (n, sh') else (n, s)) xs) name = Some sh'"
  by (induction xs) (auto split: if_splits)

lemma getSheet_putSheet:
  "getSheet wb name = Some sh \<Longrightarrow> getSheet (putSheet wb name sh') name = Some sh'"
  by (simp add: getSheet_def putSheet_def map_of_put)

lemma resolve_putSheet [simp]: "resolve (putSheet wb name sh) = resolve wb"
  by (simp add: putSheet_def)

lemma active_putSheet [simp]: "active (putSheet wb name sh) = active wb"
  by (simp add: putSheet_def)

lemma cells_setCell [simp]: "cells (setCell sh rc v) rc = v"
  by (simp add: setCell_def)

lemma cells_setCell_other: "p \<noteq> rc \<Longrightarrow> cells (setCell sh rc v) p = cells sh p"
  by (simp add: setCell_def)

text \<open>\<open>writeResult\<close> once the sheet is chosen and the address is accepted and resolved.\<close>

lemma writeResult_resolved:
  assumes "selectSheet newSheet wb = Inr (wb1, name)"
    and "isCellAddressCI (normAddress cellAddr)"
    and "getSheet wb1 name = Some sh"
    and "resolve wb1 (normAddress cellAddr) = Some rc"
  shows "writeResult n newSheet cellAddr overwrite wb =
      (if cells sh rc \<noteq> CNull \<and> cells sh rc \<noteq> CStr [] \<and> \<not> overwrite
       then (Inl (CellOccupied (normAddress cellAddr)), wb1)
       else (Inr (), putSheet wb1 name (setCell sh rc (noteValue n))))"
  using assms by (simp add: writeResult_def Let_def)

lemma selectSheet_active:
  "getSheet wb (active wb) = Some sh \<Longrightarrow> selectSheet False wb = Inr (wb, active wb)"
  by (simp add: selectSheet_def)

lemma A1_accepted: "normAddress (Some (lit ''A1'')) = lit ''A1'' \<and> isCellAddressCI (lit ''A1'')"
  by (simp add: normAddress_def string_defs char_defs)
























text \<open>
  The Place action ends with no pending placement on every path: in the occupied case
  the handler sets \<open>awaitingOverwrite\<close> and returns inside the \<open>try\<close>, and the
  \<open>finally\<close> block then clears the pending placement.
\<close>

lemma place_clears_pending:
  "pendingPlacement (handlePlaceInExcelForChartOrBelow numStr st) = None"
  by (simp add: handlePlaceInExcelForChartOrBelow_def clearPendingPlacement_def
      split: option.splits)

section \<open>The send handler while a placement is pending\<close>

text \<open>
  C4. While a pending result exists that awaits neither a cell address nor an overwrite
  confirmation, whatever is typed is answered with the finish-placement message: the
  input is not sent to the backend (the list of requests is as before), and the pending
  placement and the workbook are as before.
\<close>

theorem handleSend_blocks_new_command:
  assumes "pendingPlacement st = Some p"
    and "\<not> awaitingCell p"
    and "awaitingOverwrite p = None"
  shows "handleSend backend st = st\<lparr>messages := messages st @ [FinishPlacementFirst]\<rparr>
     \<and> requests (handleSend backend st) = requests st
     \<and> pendingPlacement (handleSend backend st) = Some p
     \<and> workbook (handleSend backend st) = workbook st"
  using assms by (simp add: handleSend_def pushMessage_def)

theorem handleSend_blocks_new_command_witness:
  "handleSend (\<lambda>r. NoData) (stateOf (oneSheet []) (pendingNote sumNote) (lit ''sum Sales''))
     = (stateOf (oneSheet []) (pendingNote sumNote) (lit ''sum Sales''))
         \<lparr>messages := [FinishPlacementFirst]\<rparr>
   \<and> requests (handleSend (\<lambda>r. NoData)
        (stateOf (oneSheet []) (pendingNote sumNote) (lit ''sum Sales''))) = []"
  using handleSend_blocks_new_command
    [of "stateOf (oneSheet []) (pendingNote sumNote) (lit ''sum Sales'')" "pendingNote sumNote"
        "\<lambda>r. NoData"]
  by (simp add: stateOf_def pendingNote_def)

section \<open>\<open>writeResult\<close>: the occupied-cell guard\<close>

text \<open>
  C1. Once \<open>writeResult\<close> has its sheet and the host has resolved the (accepted)
  address: when the target cell holds a value that is neither \<open>null\<close> nor the empty
  string and the overwrite flag is false, the call throws and the workbook is left as
  it was when the sheet was chosen (for the active sheet: the workbook of the call, so
  the cell and the sheet are unchanged); with the overwrite flag true, or a target cell
  that is \<open>null\<close> or empty, the call returns and the cell holds the value written.
\<close>

theorem writeResult_guard:
  assumes sel: "selectSheet newSheet wb = Inr (wb1, name)"
    and ok: "isCellAddressCI (normAddress cellAddr)"
    and sh: "getSheet wb1 name = Some sh"
    and rc: "resolve wb1 (normAddress cellAddr) = Some rc"
  shows "(cells sh rc \<noteq> CNull \<and> cells sh rc \<noteq> CStr [] \<and> \<not> overwrite \<longrightarrow>
            writeResult n newSheet cellAddr overwrite wb
              = (Inl (CellOccupied (normAddress cellAddr)), wb1))
       \<and> (overwrite \<or> cells sh rc = CNull \<or> cells sh rc = CStr [] \<longrightarrow>
            writeResult n newSheet cellAddr overwrite wb
              = (Inr (), putSheet wb1 name (setCell sh rc (noteValue n)))
            \<and> getSheet (snd (writeResult n newSheet cellAddr overwrite wb)) name
              = Some (setCell sh rc (noteValue n))
            \<and> cells (setCell sh rc (noteValue n)) rc = noteValue n)
       \<and> (\<not> newSheet \<longrightarrow> wb1 = wb)"
proof -
  have same: "\<not> newSheet \<longrightarrow> wb1 = wb"
    using sel by (auto simp: selectSheet_def split: option.splits if_splits)
  show ?thesis
    using writeResult_resolved [OF sel ok sh rc] same getSheet_putSheet [OF sh] by auto
qed

theorem writeResult_guard_witness:
  "writeResult sumNote False (Some (lit ''a1'')) False (oneSheet [[CStr (lit ''x'')]])
     = (Inl (CellOccupied (lit ''A1'')), oneSheet [[CStr (lit ''x'')]])
   \<and> fst (writeResult sumNote False (Some (lit ''a1'')) True (oneSheet [[CStr (lit ''x'')]]))
     = Inr ()
   \<and> fst (writeResult sumNote False (Some (lit ''a1'')) False (oneSheet [[CStr []]]))
     = Inr ()"
proof -
  have norm: "normAddress (Some (lit ''a1'')) = lit ''A1''"
    by (simp add: normAddress_def string_defs char_defs)
  have ok: "isCellAddressCI (normAddress (Some (lit ''a1'')))"
    by (simp add: normAddress_def string_defs char_defs)
  have sel: "selectSheet False (oneSheet rows) = Inr (oneSheet rows, lit ''Sheet1'')" for rows
    by (simp add: selectSheet_def oneSheet_def bookOf_def getSheet_def)
  have sh: "getSheet (oneSheet rows) (lit ''Sheet1'') = Some (sheetOf rows)" for rows
    by (simp add: oneSheet_def bookOf_def getSheet_def)
  have rc: "resolve (oneSheet rows) (normAddress (Some (lit ''a1''))) = Some (0, 0)" for rows
    by (simp add: normAddress_def oneSheet_def bookOf_def a1Resolve_def columnNumber_def
        string_defs char_defs)
  have x: "cells (sheetOf [[CStr (lit ''x'')]]) (0, 0) = CStr (lit ''x'')"
    and e: "cells (sheetOf [[CStr []]]) (0, 0) = CStr []"
    and ne: "lit ''x'' \<noteq> []"
    by (simp_all add: sheetOf_def lit_def)
  from writeResult_guard [OF sel [of "[[CStr (lit ''x'')]]"] ok sh rc,
      where overwrite = False and n = sumNote] x ne norm
  have a: "writeResult sumNote False (Some (lit ''a1'')) False (oneSheet [[CStr (lit ''x'')]])
     = (Inl (CellOccupied (lit ''A1'')), oneSheet [[CStr (lit ''x'')]])"
    by simp
  from writeResult_guard [OF sel [of "[[CStr (lit ''x'')]]"] ok sh rc,
      where overwrite = True and n = sumNote]
  have b: "fst (writeResult sumNote False (Some (lit ''a1'')) True (oneSheet [[CStr (lit ''x'')]]))
     = Inr ()"
    by simp
  from writeResult_guard [OF sel [of "[[CStr []]]"] ok sh rc,
      where overwrite = False and n = sumNote] e
  have c: "fst (writeResult sumNote False (Some (lit ''a1'')) False (oneSheet [[CStr []]]))
     = Inr ()"
    by simp
  from a b c show ?thesis by simp
qed

section \<open>The name of a new results sheet\<close>



section \<open>Placing a result with no column hint\<close>

text \<open>
  C9 as the spec states it: with no \<open>suggestedColumn\<close> hint the Place action writes
  the note to A1 whether or not A1 is occupied. It does not: \<open>writeResult\<close> is called
  with the overwrite flag false, and on an occupied A1 it throws. Here A1 holds \<open>x\<close>;
  after the action it still does, and the chat has the failure message.
\<close>

theorem place_without_hint_counterexample:
  "handlePlaceInExcelForChartOrBelow (\<lambda>q. [])
     (stateOf (oneSheet [[CStr (lit ''x'')]]) (pendingNote (lit ''hello'')) [])
   = \<lparr>messages = [FailedToPlace (CellOccupied (lit ''A1''))], input = [],
      pendingPlacement = None, workbook = oneSheet [[CStr (lit ''x'')]], requests = []\<rparr>
   \<and> cells (sheetOf [[CStr (lit ''x'')]]) (0, 0) = CStr (lit ''x'')"
proof -
  have sel: "selectSheet False (oneSheet [[CStr (lit ''x'')]])
      = Inr (oneSheet [[CStr (lit ''x'')]], lit ''Sheet1'')"
    by (simp add: selectSheet_def oneSheet_def bookOf_def getSheet_def)
  have sh: "getSheet (oneSheet [[CStr (lit ''x'')]]) (lit ''Sheet1'')
      = Some (sheetOf [[CStr (lit ''x'')]])"
    by (simp add: oneSheet_def bookOf_def getSheet_def)
  have rc: "resolve (oneSheet [[CStr (lit ''x'')]]) (lit ''A1'') = Some (0, 0)"
    by (simp add: oneSheet_def bookOf_def a1Resolve_def columnNumber_def string_defs char_defs)
  have x: "cells (sheetOf [[CStr (lit ''x'')]]) (0, 0) = CStr (lit ''x'')"
    and ne: "lit ''x'' \<noteq> []"
    by (simp_all add: sheetOf_def lit_def)
  have w: "writeResult (lit ''hello'') False (Some (lit ''A1'')) False (oneSheet [[CStr (lit ''x'')]])
      = (Inl (CellOccupied (lit ''A1'')), oneSheet [[CStr (lit ''x'')]])"
    using writeResult_resolved [OF sel, of "Some (lit ''A1'')" "sheetOf [[CStr (lit ''x'')]]" "(0, 0)"
        "lit ''hello''" False] A1_accepted sh rc x ne
    by simp
  show ?thesis
    by (simp add: handlePlaceInExcelForChartOrBelow_def placeBody_def stateOf_def pendingNote_def
        present_def w x pushMessage_def clearPendingPlacement_def)
qed

text \<open>
  C9, amended. With no \<open>suggestedColumn\<close> hint (and no chart) the Place action goes
  to A1 of the active sheet without consulting the column resolver and without an
  overwrite prompt of its own. When A1 is \<open>null\<close> or empty, the value of the note is
  written there; when A1 is occupied, \<open>writeResult\<close> refuses, nothing is written and
  the failure is reported. Either way the placement ends: the pending state is cleared.
\<close>

theorem place_without_hint:
  assumes p: "pendingPlacement st = Some p"
    and nochart: "\<not> present (chart p)"
    and nohint: "\<not> present (suggestedColumn p)"
    and sh: "getSheet (workbook st) (active (workbook st)) = Some sh"
    and rc: "resolve (workbook st) (lit ''A1'') = Some rc"
  shows "handlePlaceInExcelForChartOrBelow numStr st =
     (if cells sh rc \<noteq> CNull \<and> cells sh rc \<noteq> CStr []
      then st\<lparr>messages := messages st @ [FailedToPlace (CellOccupied (lit ''A1''))],
              pendingPlacement := None\<rparr>
      else st\<lparr>workbook := putSheet (workbook st) (active (workbook st))
                            (setCell sh rc (noteValue (noteText p))),
              messages := messages st @ [PlacedA1Fallback],
              pendingPlacement := None\<rparr>)"
proof -
  have w: "writeResult (noteText p) False (Some (lit ''A1'')) False (workbook st) =
      (if cells sh rc \<noteq> CNull \<and> cells sh rc \<noteq> CStr [] \<and> \<not> False
       then (Inl (CellOccupied (lit ''A1'')), workbook st)
       else (Inr (), putSheet (workbook st) (active (workbook st))
                       (setCell sh rc (noteValue (noteText p)))))"
    using writeResult_resolved [OF selectSheet_active [OF sh], of "Some (lit ''A1'')" sh rc
        "noteText p" False] A1_accepted sh rc
    by simp
  show ?thesis
    using p nochart nohint
    by (simp add: handlePlaceInExcelForChartOrBelow_def placeBody_def w pushMessage_def
        clearPendingPlacement_def)
qed

theorem place_without_hint_witness:
  "handlePlaceInExcelForChartOrBelow (\<lambda>q. [])
     (stateOf (oneSheet [[CStr []]]) (pendingNote (lit ''hello'')) [])
   = (stateOf (oneSheet [[CStr []]]) (pendingNote (lit ''hello'')) [])
       \<lparr>workbook := putSheet (oneSheet [[CStr []]]) (lit ''Sheet1'')
                      (setCell (sheetOf [[CStr []]]) (0, 0) (CStr (lit ''hello''))),
        messages := [PlacedA1Fallback], pendingPlacement := None\<rparr>"
proof -
  have sh: "getSheet (workbook (stateOf (oneSheet [[CStr []]]) (pendingNote (lit ''hello'')) []))
        (active (workbook (stateOf (oneSheet [[CStr []]]) (pendingNote (lit ''hello'')) [])))
      = Some (sheetOf [[CStr []]])"
    by (simp add: stateOf_def oneSheet_def bookOf_def getSheet_def)
  have rc: "resolve (workbook (stateOf (oneSheet [[CStr []]]) (pendingNote (lit ''hello'')) []))
        (lit ''A1'') = Some (0, 0)"
    by (simp add: stateOf_def oneSheet_def bookOf_def a1Resolve_def columnNumber_def
        string_defs char_defs)
  have p: "pendingPlacement (stateOf (oneSheet [[CStr []]]) (pendingNote (lit ''hello'')) [])
      = Some (pendingNote (lit ''hello''))"
    by (simp add: stateOf_def)
  have c: "\<not> present (chart (pendingNote (lit ''hello'')))"
    "\<not> present (suggestedColumn (pendingNote (lit ''hello'')))"
    by (simp_all add: pendingNote_def present_def)
  have e: "cells (sheetOf [[CStr []]]) (0, 0) = CStr []"
    by (simp add: sheetOf_def)
  have v: "noteValue (lit ''hello'') = CStr (lit ''hello'')"
    by (simp add: noteValue_def string_defs char_defs)
  have n: "noteText (pendingNote (lit ''hello'')) = lit ''hello''"
    by (simp add: pendingNote_def)
  from place_without_hint [OF p c sh rc, of "\<lambda>q. []"] e v n
  show ?thesis by (simp add: stateOf_def oneSheet_def bookOf_def)
qed

section \<open>The overwrite confirmation\<close>




section \<open>Merging an upload to the right of the data\<close>

text \<open>
  C2 at a sheet whose third column has data but no header: the header row is
  \<open>Name\<close>, \<open>Score\<close> and an empty cell, and the row below it holds \<open>keep\<close> in column C.
  The horizontal merge takes the column after the last header, column C, as its start
  and writes the upload there: C2, which held \<open>keep\<close>, holds the uploaded value.
\<close>

theorem horizontal_merge_overwrites:
  "cells (sheetOf unlabelled) (1, 2) = CStr (lit ''keep'')
   \<and> fst (appendUploadToActiveSheet [lit ''H''] [[CStr (lit ''v'')]] (oneSheet unlabelled))
       = Inr (lit ''C1'')
   \<and> map_option (\<lambda>sh. cells sh (1, 2))
        (getSheet (snd (appendUploadToActiveSheet [lit ''H''] [[CStr (lit ''v'')]]
           (oneSheet unlabelled))) (lit ''Sheet1''))
       = Some (CStr (lit ''v''))"
proof -
  have vals: "usedValues (sheetOf unlabelled) = unlabelled"
    by (simp add: usedValues_def sheetOf_def unlabelled_def upt_rec)
  have lf: "lastFilled (hd unlabelled) = 1"
    by (simp add: lastFilled_def unlabelled_def nonBlank_def lit_def upt_rec)
  have ne: "unlabelled \<noteq> []"
    by (simp add: unlabelled_def)
  have sh: "getSheet (oneSheet unlabelled) (lit ''Sheet1'') = Some (sheetOf unlabelled)"
    and act: "active (oneSheet unlabelled) = lit ''Sheet1''"
    by (simp_all add: oneSheet_def bookOf_def getSheet_def)
  have col: "indexToColumnName (Suc (Suc (Suc 0))) @ lit ''1'' = lit ''C1''"
    by (simp add: indexToColumnName.simps fromCharCode_def lit_def)
  have r: "appendUploadToActiveSheet [lit ''H''] [[CStr (lit ''v'')]] (oneSheet unlabelled)
      = (Inr (lit ''C1''), putSheet (oneSheet unlabelled) (lit ''Sheet1'')
           ((sheetOf unlabelled)
              \<lparr>cells := blockCell
                  ((sheetOf unlabelled)
                     \<lparr>cells := blockCell (sheetOf unlabelled) 0 2 [[CStr (lit ''H'')]],
                      used := Some (boundingBox (used (sheetOf unlabelled)) (0, 2, 1, 1))\<rparr>)
                  1 2 [[CStr (lit ''v'')]],
               used := Some (boundingBox
                  (Some (boundingBox (used (sheetOf unlabelled)) (0, 2, 1, 1))) (1, 2, 1, 1))\<rparr>))"
    by (simp add: appendUploadToActiveSheet_def sh act vals lf ne writeBlock_def col Let_def
        numeral_2_eq_2)
  have k: "cells (sheetOf unlabelled) (1, 2) = CStr (lit ''keep'')"
    by (simp add: sheetOf_def unlabelled_def)
  show ?thesis
    using k by (simp add: r getSheet_putSheet [OF sh] blockCell_def)
qed

section \<open>A note on a new results sheet\<close>

text \<open>
  C8 at the create-new variant, for the note \<open>Sum: 42.5 units\<close>: the handler hands
  the note to \<open>writeResult\<close>, which writes the number 42.5 to A1 of the new sheet
  \<open>AI_Results_1\<close>, not the cleaned text of the note.
\<close>

theorem create_new_results_sheet_extracts_number:
  "handlePlaceOnResultsSheet True (stateOf (oneSheet []) (pendingNote sumNote) [])
     = \<lparr>messages = [ResultOnNewSheet], input = [], pendingPlacement = None,
        workbook = putSheet
          (bookOf [(lit ''Sheet1'', sheetOf []), (lit ''AI_Results_1'', emptySheet)] (lit ''Sheet1''))
          (lit ''AI_Results_1'') (setCell emptySheet (0, 0) (CNum (85 / 2))),
        requests = []\<rparr>
   \<and> CNum (85 / 2) \<noteq> CStr (cleanText sumNote)"
proof -
  have nm: "nextResultsName [lit ''Sheet1''] = lit ''AI_Results_1''"
    by (simp add: nextResultsName_def nameNumber_def maxOf_def string_defs char_defs)
  have fresh: "lit ''AI_Results_1'' \<noteq> lit ''Sheet1''"
    by (simp add: lit_def)
  have sel: "selectSheet True (oneSheet [])
      = Inr (bookOf [(lit ''Sheet1'', sheetOf []), (lit ''AI_Results_1'', emptySheet)] (lit ''Sheet1''),
             lit ''AI_Results_1'')"
    by (simp add: selectSheet_def addSheet_def oneSheet_def bookOf_def nm fresh Let_def)
  have sh: "getSheet (bookOf [(lit ''Sheet1'', sheetOf []), (lit ''AI_Results_1'', emptySheet)]
        (lit ''Sheet1'')) (lit ''AI_Results_1'') = Some emptySheet"
    by (simp add: bookOf_def getSheet_def fresh)
  have rc: "resolve (bookOf [(lit ''Sheet1'', sheetOf []), (lit ''AI_Results_1'', emptySheet)]
        (lit ''Sheet1'')) (lit ''A1'') = Some (0, 0)"
    by (simp add: bookOf_def a1Resolve_def columnNumber_def string_defs char_defs)
  have v: "noteValue sumNote = CNum (85 / 2)"
    by (simp add: noteValue_def sumNote_def string_defs char_defs)
  have e: "cells emptySheet (0, 0) = CStr []"
    by (simp add: emptySheet_def)
  have w: "writeResult sumNote True (Some (lit ''A1'')) False (oneSheet [])
      = (Inr (), putSheet
          (bookOf [(lit ''Sheet1'', sheetOf []), (lit ''AI_Results_1'', emptySheet)] (lit ''Sheet1''))
          (lit ''AI_Results_1'') (setCell emptySheet (0, 0) (CNum (85 / 2))))"
    using writeResult_resolved [OF sel, of "Some (lit ''A1'')" emptySheet "(0, 0)" sumNote False]
      A1_accepted sh rc v e
    by simp
  show ?thesis
    by (simp add: handlePlaceOnResultsSheet_def stateOf_def pendingNote_def present_def
        oneSheet_def [symmetric] w pushMessage_def clearPendingPlacement_def Let_def)
qed

theorem create_new_results_sheet_extracts_number_witness:
  "map_option (\<lambda>sh. cells sh (0, 0))
     (getSheet (workbook (handlePlaceOnResultsSheet True
        (stateOf (oneSheet []) (pendingNote sumNote) []))) (lit ''AI_Results_1''))
   = Some (CNum (85 / 2))"
proof -
  have fresh: "lit ''AI_Results_1'' \<noteq> lit ''Sheet1''"
    by (simp add: lit_def)
  have sh: "getSheet (bookOf [(lit ''Sheet1'', sheetOf []), (lit ''AI_Results_1'', emptySheet)]
        (lit ''Sheet1'')) (lit ''AI_Results_1'') = Some emptySheet"
    by (simp add: bookOf_def getSheet_def fresh)
  from create_new_results_sheet_extracts_number getSheet_putSheet [OF sh]
  show ?thesis by simp
qed

section \<open>The value stored for a note, by placement path\<close>






section \<open>\<open>findPlacementCell\<close>: the row and the column of the address\<close>




section \<open>\<open>findPlacementCell\<close>: a matching column beyond Z\<close>




end
